theory Spec2Isabelle
  imports Main "HOL-Library.Multiset"
begin

section \<open>Data model\<close>

text \<open>
  The document store of the backend: the collections the handlers of
  \<^verbatim>\<open>teacher.routes.ts\<close> and \<^verbatim>\<open>teacher.controller.ts\<close> read and write.
  An ObjectId is a natural number. A collection is the list of its documents in
  insertion order; \<^verbatim>\<open>findOne\<close> returns the first document that matches.
  The Mongoose schemas live in other files of the repository; a document carries
  the fields these handlers use, and the numbers \<open>k\<close> and \<open>numQuestions\<close> of an exam
  are integers of either sign.
\<close>

type_synonym objectId = nat

text \<open>\<^verbatim>\<open>new Date(s)\<close>: the date object built from the string of the request.\<close>

datatype date = Date string

record question =
  questionText :: string
  maxMarks :: int

record exam =
  exam_id :: objectId
  createdBy :: objectId
  title :: string
  startTime :: date
  endTime :: date
  numQuestions :: int
  exam_k :: int
  questions :: "question list"

record submission =
  sub_exam :: objectId
  sub_student :: objectId

record evaluation =
  ev_exam :: objectId
  evaluator :: objectId
  evaluatee :: objectId
  marks :: "int list"
  feedback :: string
  status :: string

record user =
  user_id :: objectId
  email :: string
  role :: string
  enrolledCourses :: "objectId list"

record course =
  course_id :: objectId
  code :: string

record db =
  users :: "user list"
  courses :: "course list"
  exams :: "exam list"
  submissions :: "submission list"
  evaluations :: "evaluation list"

text \<open>
  \<^verbatim>\<open>res.status(c).json({message | error: m})\<close>: the status code and the text. (The
  answer of the edit handler also carries the saved exam, which the store holds.)
\<close>

datatype response = Response nat string | NoResponse

text \<open>
  \<open>NoResponse\<close>: the process ended before the handler answered. No status line is
  sent then, which the status 0 stands for.
\<close>

fun http_status :: "response \<Rightarrow> nat" where
  "http_status (Response c m) = c"
| "http_status NoResponse = 0"

text \<open>
  \<^verbatim>\<open>doc.save()\<close>: the stored document with the \<^verbatim>\<open>_id\<close> of \<open>x\<close> is replaced by \<open>x\<close>.
\<close>

fun save_doc :: "('a \<Rightarrow> objectId) \<Rightarrow> 'a \<Rightarrow> 'a list \<Rightarrow> 'a list" where
  "save_doc ident x [] = []"
| "save_doc ident x (y # ys) =
     (if ident y = ident x then x # ys else y # save_doc ident x ys)"

text \<open>\<^verbatim>\<open>Model.deleteOne(q)\<close>: the first document that matches is removed.\<close>

fun deleteOne :: "('a \<Rightarrow> bool) \<Rightarrow> 'a list \<Rightarrow> 'a list" where
  "deleteOne q [] = []"
| "deleteOne q (y # ys) = (if q y then ys else y # deleteOne q ys)"

text \<open>\<^verbatim>\<open>Model.deleteMany(q)\<close>: every document that matches is removed.\<close>

definition deleteMany :: "('a \<Rightarrow> bool) \<Rightarrow> 'a list \<Rightarrow> 'a list" where
  "deleteMany q xs = filter (\<lambda>x. \<not> q x) xs"

section \<open>Admin: assigning a teacher to a course\<close>

text \<open>
  \<^verbatim>\<open>assignTeacherToCourse\<close> of \<^verbatim>\<open>teacher.controller.ts\<close>, with the two fields of
  the request body as arguments.
\<close>

definition assignTeacherToCourse :: "string \<Rightarrow> string \<Rightarrow> db \<Rightarrow> response \<times> db" where
  "assignTeacherToCourse em courseCode d =
     (case find (\<lambda>u. email u = em \<and> role u = ''teacher'') (users d) of
        None \<Rightarrow> (Response 404 ''Teacher not found'', d)
      | Some teacher \<Rightarrow>
          (case find (\<lambda>c. code c = courseCode) (courses d) of
             None \<Rightarrow> (Response 404 ''Course not found'', d)
           | Some crs \<Rightarrow>
               (let courseId = course_id crs;
                    alreadyAssigned = list_ex (\<lambda>i. i = courseId) (enrolledCourses teacher)
                in if \<not> alreadyAssigned
                   then (Response 200 ''Teacher assigned to course successfully'',
                         d\<lparr>users := save_doc user_id
                              (teacher\<lparr>enrolledCourses := enrolledCourses teacher @ [courseId]\<rparr>)
                              (users d)\<rparr>)
                   else (Response 200 ''Teacher assigned to course successfully'', d))))"

section \<open>Teacher: editing and deleting an exam\<close>

text \<open>
  The body of \<^verbatim>\<open>PUT /exam/:examId\<close>. A field that the request leaves out is
  \<^verbatim>\<open>undefined\<close>, here \<open>None\<close>.
\<close>

record exam_body =
  body_title :: "string option"
  body_startTime :: "string option"
  body_endTime :: "string option"
  body_numQuestions :: "int option"
  body_k :: "int option"

text \<open>JavaScript truthiness of an optional string and of an optional number.\<close>

fun truthy_string :: "string option \<Rightarrow> bool" where
  "truthy_string None = False"
| "truthy_string (Some s) = (s \<noteq> [])"

fun truthy_number :: "int option \<Rightarrow> bool" where
  "truthy_number None = False"
| "truthy_number (Some n) = (n \<noteq> 0)"

text \<open>The decimal digits of a number, as the template literal prints it.\<close>

definition digit :: "nat \<Rightarrow> char" where
  "digit n = ''0123456789'' ! n"

fun decimal :: "nat \<Rightarrow> string" where
  "decimal n = (if n < 10 then [digit n] else decimal (n div 10) @ [digit (n mod 10)])"

declare decimal.simps [simp del]

text \<open>
  The loop \<^verbatim>\<open>for (let i = 1; i <= numQuestions; i++) exam.questions.push(...)\<close>,
  which starts from the empty list.
\<close>

definition placeholder_questions :: "int \<Rightarrow> question list" where
  "placeholder_questions n =
     map (\<lambda>i. \<lparr>questionText = ''Question '' @ decimal (nat i), maxMarks = 10\<rparr>) [1..n]"

text \<open>The assignments to the fields of the exam, in the order of the handler.\<close>

definition update_fields :: "exam_body \<Rightarrow> exam \<Rightarrow> exam" where
  "update_fields b ex =
     (let e1 = (if truthy_string (body_title b) then ex\<lparr>title := the (body_title b)\<rparr> else ex);
          e2 = (if truthy_string (body_startTime b)
                then e1\<lparr>startTime := Date (the (body_startTime b))\<rparr> else e1);
          e3 = (if truthy_string (body_endTime b)
                then e2\<lparr>endTime := Date (the (body_endTime b))\<rparr> else e2);
          e4 = (if truthy_number (body_numQuestions b)
                   \<and> the (body_numQuestions b) \<noteq> numQuestions e3
                then e3\<lparr>numQuestions := the (body_numQuestions b),
                        questions := placeholder_questions (the (body_numQuestions b))\<rparr>
                else e3)
      in if truthy_number (body_k b) then e4\<lparr>exam_k := the (body_k b)\<rparr> else e4)"

definition edit_exam :: "objectId \<Rightarrow> objectId \<Rightarrow> exam_body \<Rightarrow> db \<Rightarrow> response \<times> db" where
  "edit_exam examId userId b d =
     (case find (\<lambda>e. exam_id e = examId \<and> createdBy e = userId) (exams d) of
        None \<Rightarrow> (Response 404 ''Exam not found or unauthorized'', d)
      | Some ex \<Rightarrow>
          (Response 200 ''Exam updated successfully'',
           d\<lparr>exams := save_doc exam_id (update_fields b ex) (exams d)\<rparr>))"

definition delete_exam :: "objectId \<Rightarrow> objectId \<Rightarrow> db \<Rightarrow> response \<times> db" where
  "delete_exam examId userId d =
     (case find (\<lambda>e. exam_id e = examId \<and> createdBy e = userId) (exams d) of
        None \<Rightarrow> (Response 404 ''Exam not found or unauthorized'', d)
      | Some ex \<Rightarrow>
          (Response 200 ''Exam and related data deleted successfully'',
           d\<lparr>evaluations := deleteMany (\<lambda>r. ev_exam r = examId) (evaluations d),
             submissions := deleteMany (\<lambda>s. sub_exam s = examId) (submissions d),
             exams := deleteOne (\<lambda>e. exam_id e = examId) (exams d)\<rparr>))"

section \<open>Teacher: sending solutions for peer evaluation\<close>

text \<open>
  \<^verbatim>\<open>POST /send-solutions/:examId\<close>. The handler runs inside \<^verbatim>\<open>try\<close>: an
  exception of the JavaScript runtime ends it with status 500, and the records
  created before the exception stay in the store. \<open>ProcessAbort\<close> is not an
  exception: the engine runs out of memory and the process ends, so no
  \<^verbatim>\<open>catch\<close> block runs and no answer is sent.
\<close>

datatype js_error = TypeError | RangeError | ProcessAbort

text \<open>
  \<^verbatim>\<open>.populate('student')\<close>: the reference of a submission is replaced by the user
  document with that \<^verbatim>\<open>_id\<close>, or by \<^verbatim>\<open>null\<close> when there is none. The handler
  reads only the \<^verbatim>\<open>_id\<close> of the document.
\<close>

definition populate_student :: "user list \<Rightarrow> submission \<Rightarrow> objectId option" where
  "populate_student us s = map_option user_id (find (\<lambda>u. user_id u = sub_student s) us)"

text \<open>\<^verbatim>\<open>students.filter((_, index) => index !== i)\<close>.\<close>

definition otherStudents :: "nat \<Rightarrow> 'a list \<Rightarrow> 'a list" where
  "otherStudents i students =
     map snd (filter (\<lambda>p. fst p \<noteq> i) (zip [0..<length students] students))"

text \<open>
  \<^verbatim>\<open>xs.slice(0, e)\<close> for an integer \<open>e\<close>: a negative end counts from the end of
  the array.
\<close>

definition slice0 :: "'a list \<Rightarrow> int \<Rightarrow> 'a list" where
  "slice0 xs e =
     (let len = int (length xs);
          final = (if e < 0 then max (len + e) 0 else min e len)
      in take (nat final) xs)"

text \<open>
  \<^verbatim>\<open>new Array(n).fill(0)\<close>. The constructor raises a RangeError unless \<open>n\<close> is an
  array length (\<open>0 \<le> n \<le> 2^32 - 1\<close>). Whether an array of that length can then be
  filled depends on the JavaScript engine and the memory it has, which are not
  part of the repository: the engine is a parameter that says, for each length,
  whether the array is filled, a RangeError is raised, or the process ends.
\<close>

datatype fill_outcome = Filled | Throws | Aborts

type_synonym engine = "int \<Rightarrow> fill_outcome"

definition zero_marks :: "engine \<Rightarrow> int \<Rightarrow> js_error + int list" where
  "zero_marks eng n =
     (if n < 0 \<or> 4294967295 < n then Inl RangeError
      else (case eng n of
              Filled \<Rightarrow> Inr (replicate (nat n) 0)
            | Throws \<Rightarrow> Inl RangeError
            | Aborts \<Rightarrow> Inl ProcessAbort))"

text \<open>
  \<^verbatim>\<open>otherStudents.sort(() => 0.5 - Math.random())\<close>: the outcome of the sort in
  the iteration of evaluator \<open>i\<close> is given by a function of \<open>i\<close> and the array.
  Whatever the comparator answers, the sort rearranges the array.
\<close>

type_synonym shuffle = "nat \<Rightarrow> objectId option list \<Rightarrow> objectId option list"

definition is_shuffle :: "shuffle \<Rightarrow> bool" where
  "is_shuffle rnd = (\<forall>i xs. mset (rnd i xs) = mset xs)"

text \<open>
  The inner loop \<^verbatim>\<open>for (const evaluatee of assignedEvaluatees)\<close>. Reading
  \<^verbatim>\<open>_id\<close> of \<^verbatim>\<open>null\<close> is a TypeError; the evaluator is read first.
\<close>

fun create_evaluations ::
  "engine \<Rightarrow> objectId \<Rightarrow> int \<Rightarrow> objectId option \<Rightarrow> objectId option list \<Rightarrow> evaluation list
     \<Rightarrow> js_error option \<times> evaluation list" where
  "create_evaluations eng examId nq evr [] evs = (None, evs)"
| "create_evaluations eng examId nq evr (evee # rest) evs =
     (case evr of
        None \<Rightarrow> (Some TypeError, evs)
      | Some e \<Rightarrow>
          (case evee of
             None \<Rightarrow> (Some TypeError, evs)
           | Some v \<Rightarrow>
               (case find (\<lambda>r. ev_exam r = examId \<and> evaluator r = e \<and> evaluatee r = v) evs of
                  Some existingEvaluation \<Rightarrow> create_evaluations eng examId nq evr rest evs
                | None \<Rightarrow>
                    (case zero_marks eng nq of
                       Inl err \<Rightarrow> (Some err, evs)
                     | Inr m \<Rightarrow>
                         create_evaluations eng examId nq evr rest
                           (evs @ [\<lparr>ev_exam = examId, evaluator = e, evaluatee = v,
                                    marks = m, feedback = [], status = ''pending''\<rparr>])))))"

text \<open>The outer loop \<^verbatim>\<open>for (let i = 0; i < students.length; i++)\<close>.\<close>

function assign_loop ::
  "engine \<Rightarrow> shuffle \<Rightarrow> objectId \<Rightarrow> int \<Rightarrow> int \<Rightarrow> objectId option list \<Rightarrow> nat \<Rightarrow> evaluation list
     \<Rightarrow> js_error option \<times> evaluation list" where
  "assign_loop eng rnd examId nq k students i evs =
     (if i < length students then
        (let evr = students ! i;
             others = otherStudents i students;
             shuffled = rnd i others;
             assignedEvaluatees = slice0 shuffled (min k (int (length others)))
         in case create_evaluations eng examId nq evr assignedEvaluatees evs of
              (Some err, evs') \<Rightarrow> (Some err, evs')
            | (None, evs') \<Rightarrow> assign_loop eng rnd examId nq k students (i + 1) evs')
      else (None, evs))"
  by pat_completeness auto
termination
  by (relation "measure (\<lambda>(eng, rnd, examId, nq, k, students, i, evs). length students - i)") auto

declare assign_loop.simps [simp del]

definition send_solutions :: "engine \<Rightarrow> shuffle \<Rightarrow> objectId \<Rightarrow> objectId \<Rightarrow> db \<Rightarrow> response \<times> db" where
  "send_solutions eng rnd examId teacherId d =
     (case find (\<lambda>e. exam_id e = examId \<and> createdBy e = teacherId) (exams d) of
        None \<Rightarrow> (Response 404 ''Exam not found or unauthorized'', d)
      | Some ex \<Rightarrow>
          (let subs = filter (\<lambda>s. sub_exam s = examId) (submissions d)
           in if length subs = 0
              then (Response 400 ''No submissions found for this exam'', d)
              else
                (let students = map (populate_student (users d)) subs;
                     k = exam_k ex
                 in case assign_loop eng rnd examId (numQuestions ex) k students 0
                           (evaluations d) of
                      (Some err, evs') \<Rightarrow>
                        (if err = ProcessAbort then NoResponse
                         else Response 500 ''Failed to send solutions for evaluation'',
                         d\<lparr>evaluations := evs'\<rparr>)
                    | (None, evs') \<Rightarrow>
                        (Response 200 ''Solutions sent to students for peer evaluation'',
                         d\<lparr>evaluations := evs'\<rparr>))))"

text \<open>The records a handler added to the evaluation collection.\<close>

definition created :: "db \<Rightarrow> db \<Rightarrow> evaluation list" where
  "created d d' = drop (length (evaluations d)) (evaluations d')"

text \<open>The students with a submission for the exam, in the order of the query.\<close>

definition submitters :: "objectId \<Rightarrow> db \<Rightarrow> objectId list" where
  "submitters examId d = map sub_student (filter (\<lambda>s. sub_exam s = examId) (submissions d))"

text \<open>
  Repeated invocation for the same exam: each run sees the store the run before
  left, and has a sort outcome of its own.
\<close>

fun send_solutions_repeatedly :: "engine \<Rightarrow> shuffle list \<Rightarrow> objectId \<Rightarrow> objectId \<Rightarrow> db \<Rightarrow> db" where
  "send_solutions_repeatedly eng [] examId teacherId d = d"
| "send_solutions_repeatedly eng (rnd # rnds) examId teacherId d =
     send_solutions_repeatedly eng rnds examId teacherId (snd (send_solutions eng rnd examId teacherId d))"

section \<open>Notions used in the statements\<close>

text \<open>The triple that identifies an evaluation record.\<close>

definition pair_key :: "evaluation \<Rightarrow> objectId \<times> objectId \<times> objectId" where
  "pair_key r = (ev_exam r, evaluator r, evaluatee r)"

text \<open>The evaluatees the iteration of evaluator \<open>i\<close> goes through.\<close>

definition assigned :: "shuffle \<Rightarrow> int \<Rightarrow> objectId option list \<Rightarrow> nat \<Rightarrow> objectId option list" where
  "assigned rnd k students i =
     slice0 (rnd i (otherStudents i students)) (min k (int (length (otherStudents i students))))"

text \<open>A record as \<^verbatim>\<open>Evaluation.create\<close> of the handler writes it.\<close>

definition seeded :: "engine \<Rightarrow> objectId \<Rightarrow> int \<Rightarrow> evaluation \<Rightarrow> bool" where
  "seeded eng examId nq r =
     (ev_exam r = examId \<and> zero_marks eng nq = Inr (marks r) \<and> feedback r = [] \<and>
      status r = ''pending'')"

text \<open>The evaluatees an evaluator has in an exam, one entry for each record.\<close>

definition evaluatees_of :: "objectId \<Rightarrow> objectId \<Rightarrow> evaluation list \<Rightarrow> objectId list" where
  "evaluatees_of examId e evs =
     map evaluatee (filter (\<lambda>r. ev_exam r = examId \<and> evaluator r = e) evs)"

text \<open>The array \<^verbatim>\<open>students\<close> of the handler.\<close>

definition students_of :: "objectId \<Rightarrow> db \<Rightarrow> objectId option list" where
  "students_of examId d =
     map (populate_student (users d)) (filter (\<lambda>s. sub_exam s = examId) (submissions d))"

text \<open>
  The evaluations of an exam are well assigned when no triple occurs twice, no
  student grades themselves and every evaluatee is a submitter.
\<close>

definition well_assigned :: "objectId \<Rightarrow> db \<Rightarrow> bool" where
  "well_assigned examId d =
     (distinct (map pair_key (filter (\<lambda>r. ev_exam r = examId) (evaluations d))) \<and>
      (\<forall>r \<in> set (evaluations d). ev_exam r = examId \<longrightarrow>
         evaluator r \<noteq> evaluatee r \<and> evaluatee r \<in> set (submitters examId d)))"

section \<open>Example stores\<close>

text \<open>
  One teacher (7), three students (1, 2, 3) who all submitted exam 10, and two
  evaluation records from before: student 1 has graded student 2 in exam 10, and
  there is a record of another exam (11).
\<close>

definition example_exam :: exam where
  "example_exam =
     \<lparr>exam_id = 10, createdBy = 7, title = ''Quiz 1'',
      startTime = Date ''2025-03-01T09:00'', endTime = Date ''2025-03-01T10:00'',
      numQuestions = 2, exam_k = 1,
      questions = [\<lparr>questionText = ''Question 1'', maxMarks = 10\<rparr>,
                   \<lparr>questionText = ''Question 2'', maxMarks = 10\<rparr>]\<rparr>"

definition example_teacher :: user where
  "example_teacher =
     \<lparr>user_id = 7, email = ''t@pes.edu'', role = ''teacher'', enrolledCourses = [5]\<rparr>"

definition example_db :: db where
  "example_db =
     \<lparr>users = [\<lparr>user_id = 1, email = ''a@pes.edu'', role = ''student'', enrolledCourses = [5]\<rparr>,
               \<lparr>user_id = 2, email = ''b@pes.edu'', role = ''student'', enrolledCourses = [5]\<rparr>,
               \<lparr>user_id = 3, email = ''c@pes.edu'', role = ''student'', enrolledCourses = [5]\<rparr>,
               example_teacher],
      courses = [\<lparr>course_id = 5, code = ''CS101''\<rparr>, \<lparr>course_id = 6, code = ''CS102''\<rparr>],
      exams = [example_exam],
      submissions = [\<lparr>sub_exam = 10, sub_student = 1\<rparr>, \<lparr>sub_exam = 10, sub_student = 2\<rparr>,
                     \<lparr>sub_exam = 11, sub_student = 2\<rparr>, \<lparr>sub_exam = 10, sub_student = 3\<rparr>],
      evaluations = [\<lparr>ev_exam = 10, evaluator = 1, evaluatee = 2, marks = [7, 9],
                       feedback = ''good'', status = ''completed''\<rparr>,
                     \<lparr>ev_exam = 11, evaluator = 2, evaluatee = 1, marks = [0],
                       feedback = [], status = ''pending''\<rparr>]\<rparr>"

text \<open>The same store before any evaluation record exists.\<close>

definition fresh_db :: db where
  "fresh_db = example_db\<lparr>evaluations := []\<rparr>"

text \<open>The same store with a negative \<open>k\<close> in the exam.\<close>

definition negative_k_db :: db where
  "negative_k_db = fresh_db\<lparr>exams := [example_exam\<lparr>exam_k := - 1\<rparr>]\<rparr>"

text \<open>The same store with a question count the example engine cannot fill.\<close>

definition long_exam_db :: "int \<Rightarrow> db" where
  "long_exam_db n = fresh_db\<lparr>exams := [example_exam\<lparr>numQuestions := n\<rparr>]\<rparr>"

text \<open>The same store with a single submission for exam 10, and with none.\<close>

definition single_db :: db where
  "single_db = example_db\<lparr>submissions := [\<lparr>sub_exam = 10, sub_student = 1\<rparr>]\<rparr>"

definition no_submission_db :: db where
  "no_submission_db = example_db\<lparr>submissions := [\<lparr>sub_exam = 11, sub_student = 2\<rparr>]\<rparr>"

text \<open>A request that supplies falsy values and one new end time.\<close>

definition example_body :: exam_body where
  "example_body =
     \<lparr>body_title = Some [], body_startTime = None, body_endTime = Some ''2025-03-01T11:00'',
      body_numQuestions = Some 0, body_k = Some 0\<rparr>"

text \<open>
  An engine that fills arrays of up to \<open>2^27 - 1\<close> elements, raises a RangeError
  for longer ones and runs out of memory at the largest array length.
\<close>

definition example_engine :: engine where
  "example_engine n =
     (if n \<le> 134217727 then Filled else if n < 4294967295 then Throws else Aborts)"

text \<open>Two outcomes of the sort: the array as it is, and the array reversed.\<close>

definition keep_order :: shuffle where
  "keep_order i xs = xs"

definition reverse_order :: shuffle where
  "reverse_order i xs = rev xs"

section \<open>Properties of the store operations\<close>

lemma find_save_doc:
  assumes "find q xs = Some x" and "ident x' = ident x" and "q x'"
    and "distinct (map ident xs)"
  shows "find q (save_doc ident x' xs) = Some x'"
  using assms
proof (induction xs)
  case Nil
  then show ?case by simp
next
  case (Cons y ys)
  show ?case
  proof (cases "q y")
    case True
    with Cons.prems show ?thesis by simp
  next
    case False
    with Cons.prems have f: "find q ys = Some x" by simp
    then have "x \<in> set ys" by (auto simp: find_Some_iff)
    with Cons.prems have "ident y \<noteq> ident x'" by auto
    with False Cons f show ?thesis by simp
  qed
qed

lemma edit_exam_found:
  assumes f: "find (\<lambda>e. exam_id e = examId \<and> createdBy e = userId) (exams d) = Some ex"
    and dist: "distinct (map exam_id (exams d))"
  shows "find (\<lambda>e. exam_id e = examId \<and> createdBy e = userId)
           (exams (snd (edit_exam examId userId b d))) = Some (update_fields b ex)"
proof -
  from f have q: "exam_id ex = examId \<and> createdBy ex = userId"
    by (auto simp: find_Some_iff)
  have "exam_id (update_fields b ex) = exam_id ex"
    and "createdBy (update_fields b ex) = createdBy ex"
    by (simp_all add: update_fields_def Let_def)
  with find_save_doc[OF f, of exam_id "update_fields b ex"] q dist f
  show ?thesis by (simp add: edit_exam_def)
qed

lemma update_fields_frame:
  "(body_title b = None \<or> body_title b = Some [] \<longrightarrow>
      title (update_fields b ex) = title ex) \<and>
   (body_startTime b = None \<or> body_startTime b = Some [] \<longrightarrow>
      startTime (update_fields b ex) = startTime ex) \<and>
   (body_endTime b = None \<or> body_endTime b = Some [] \<longrightarrow>
      endTime (update_fields b ex) = endTime ex) \<and>
   (body_numQuestions b = None \<or> body_numQuestions b = Some 0 \<longrightarrow>
      numQuestions (update_fields b ex) = numQuestions ex \<and>
      questions (update_fields b ex) = questions ex) \<and>
   (body_k b = None \<or> body_k b = Some 0 \<longrightarrow> exam_k (update_fields b ex) = exam_k ex)"
  by (auto simp: update_fields_def Let_def)

section \<open>Deleting an exam\<close>

text \<open>
  Claim C8. Deleting an exam cascades: when the handler answers 200, no evaluation
  record and no submission record of the store refers to the exam any more.
\<close>

theorem delete_exam_cascades:
  "http_status (fst (delete_exam examId userId d)) = 200 \<Longrightarrow>
     (\<forall>r \<in> set (evaluations (snd (delete_exam examId userId d))). ev_exam r \<noteq> examId) \<and>
     (\<forall>s \<in> set (submissions (snd (delete_exam examId userId d))). sub_exam s \<noteq> examId)"
  by (auto simp: delete_exam_def deleteMany_def split: option.splits)

theorem delete_exam_cascades_witness:
  "http_status (fst (delete_exam 10 7 example_db)) = 200 \<and>
   list_all (\<lambda>r. ev_exam r \<noteq> 10) (evaluations (snd (delete_exam 10 7 example_db))) \<and>
   list_all (\<lambda>s. sub_exam s \<noteq> 10) (submissions (snd (delete_exam 10 7 example_db))) \<and>
   length (evaluations example_db) = 2 \<and>
   length (evaluations (snd (delete_exam 10 7 example_db))) = 1 \<and>
   submissions (snd (delete_exam 10 7 example_db)) = [\<lparr>sub_exam = 11, sub_student = 2\<rparr>]"
proof -
  have ok: "http_status (fst (delete_exam 10 7 example_db)) = 200"
    by (simp add: delete_exam_def example_db_def example_exam_def)
  have rest: "length (evaluations example_db) = 2 \<and>
      length (evaluations (snd (delete_exam 10 7 example_db))) = 1 \<and>
      submissions (snd (delete_exam 10 7 example_db)) = [\<lparr>sub_exam = 11, sub_student = 2\<rparr>]"
    by (simp add: delete_exam_def deleteMany_def example_db_def example_exam_def)
  from delete_exam_cascades [OF ok] ok rest show ?thesis
    by (simp add: list_all_iff)
qed

section \<open>Editing an exam\<close>

text \<open>
  Claim C9. In the exam-edit operation a field whose supplied value is falsy is
  left unchanged: \<open>k = 0\<close>, \<open>numQuestions = 0\<close> or an empty title (or time) do not
  update the exam, and neither does a field that is not supplied. With a falsy
  \<open>numQuestions\<close> the questions stay as well.
\<close>

theorem edit_exam_falsy_unchanged:
  assumes "find (\<lambda>e. exam_id e = examId \<and> createdBy e = userId) (exams d) = Some ex"
    and "distinct (map exam_id (exams d))"
  shows "\<exists>ex'. find (\<lambda>e. exam_id e = examId \<and> createdBy e = userId)
                 (exams (snd (edit_exam examId userId b d))) = Some ex' \<and>
     (body_title b = None \<or> body_title b = Some [] \<longrightarrow> title ex' = title ex) \<and>
     (body_startTime b = None \<or> body_startTime b = Some [] \<longrightarrow> startTime ex' = startTime ex) \<and>
     (body_endTime b = None \<or> body_endTime b = Some [] \<longrightarrow> endTime ex' = endTime ex) \<and>
     (body_numQuestions b = None \<or> body_numQuestions b = Some 0 \<longrightarrow>
        numQuestions ex' = numQuestions ex \<and> questions ex' = questions ex) \<and>
     (body_k b = None \<or> body_k b = Some 0 \<longrightarrow> exam_k ex' = exam_k ex)"
  using edit_exam_found [OF assms, of b] update_fields_frame [of b ex] by blast

theorem edit_exam_falsy_unchanged_witness:
  "find (\<lambda>e. exam_id e = 10 \<and> createdBy e = 7) (exams example_db) = Some example_exam \<and>
   distinct (map exam_id (exams example_db)) \<and>
   body_k example_body = Some 0 \<and> body_numQuestions example_body = Some 0 \<and>
   body_title example_body = Some [] \<and>
   (\<exists>ex'. find (\<lambda>e. exam_id e = 10 \<and> createdBy e = 7)
            (exams (snd (edit_exam 10 7 example_body example_db))) = Some ex' \<and>
      title ex' = ''Quiz 1'' \<and> startTime ex' = Date ''2025-03-01T09:00'' \<and>
      numQuestions ex' = 2 \<and> questions ex' = questions example_exam \<and> exam_k ex' = 1)"
  using edit_exam_falsy_unchanged [of 10 7 example_db example_exam example_body]
  by (simp add: example_db_def example_exam_def example_body_def)

section \<open>Assigning a teacher to a course\<close>

lemma assign_already_assigned:
  assumes "find (\<lambda>u. email u = em \<and> role u = ''teacher'') (users d) = Some t"
    and "find (\<lambda>c. code c = cc) (courses d) = Some c"
    and "course_id c \<in> set (enrolledCourses t)"
  shows "assignTeacherToCourse em cc d =
           (Response 200 ''Teacher assigned to course successfully'', d)"
  using assms by (simp add: assignTeacherToCourse_def list_ex_iff)

lemma assign_twice:
  assumes "distinct (map user_id (users d))"
  shows "assignTeacherToCourse em cc (snd (assignTeacherToCourse em cc d)) =
           assignTeacherToCourse em cc d"
proof (cases "find (\<lambda>u. email u = em \<and> role u = ''teacher'') (users d)")
  case None
  then show ?thesis by (simp add: assignTeacherToCourse_def)
next
  case (Some t)
  note ft = Some
  show ?thesis
  proof (cases "find (\<lambda>c. code c = cc) (courses d)")
    case None
    with ft show ?thesis by (simp add: assignTeacherToCourse_def)
  next
    case (Some c)
    show ?thesis
    proof (cases "course_id c \<in> set (enrolledCourses t)")
      case True
      from assign_already_assigned [OF ft Some True] show ?thesis by simp
    next
      case False
      let ?t' = "t\<lparr>enrolledCourses := enrolledCourses t @ [course_id c]\<rparr>"
      let ?d' = "d\<lparr>users := save_doc user_id ?t' (users d)\<rparr>"
      from ft have q: "email t = em \<and> role t = ''teacher''"
        by (auto simp: find_Some_iff)
      have d': "assignTeacherToCourse em cc d =
                  (Response 200 ''Teacher assigned to course successfully'', ?d')"
        using ft Some False by (simp add: assignTeacherToCourse_def list_ex_iff)
      have "find (\<lambda>u. email u = em \<and> role u = ''teacher'') (users ?d') = Some ?t'"
        using find_save_doc [OF ft, of user_id ?t'] q assms by simp
      moreover have "find (\<lambda>c. code c = cc) (courses ?d') = Some c"
        using Some by simp
      moreover have "course_id c \<in> set (enrolledCourses ?t')" by simp
      ultimately have "assignTeacherToCourse em cc ?d' =
                         (Response 200 ''Teacher assigned to course successfully'', ?d')"
        by (rule assign_already_assigned)
      with d' show ?thesis by simp
    qed
  qed
qed

text \<open>
  Claim C10. \<^verbatim>\<open>assignTeacherToCourse\<close> is idempotent on the course list of the
  teacher: when the course is already in \<open>enrolledCourses\<close> the store is left as it
  is (nothing is appended), and, the \<^verbatim>\<open>_id\<close>s of the users being unique, running
  the operation twice gives the answer and the store of running it once.
\<close>

theorem assignTeacherToCourse_idempotent:
  "(\<forall>t c. find (\<lambda>u. email u = em \<and> role u = ''teacher'') (users d) = Some t \<and>
          find (\<lambda>c. code c = cc) (courses d) = Some c \<and>
          course_id c \<in> set (enrolledCourses t)
          \<longrightarrow> snd (assignTeacherToCourse em cc d) = d) \<and>
   (distinct (map user_id (users d)) \<longrightarrow>
      assignTeacherToCourse em cc (snd (assignTeacherToCourse em cc d)) =
        assignTeacherToCourse em cc d)"
  using assign_already_assigned [of em d _ cc] assign_twice [of d em cc] by simp

theorem assignTeacherToCourse_idempotent_witness:
  "find (\<lambda>u. email u = ''t@pes.edu'' \<and> role u = ''teacher'') (users example_db)
     = Some example_teacher \<and>
   find (\<lambda>c. code c = ''CS101'') (courses example_db) = Some \<lparr>course_id = 5, code = ''CS101''\<rparr> \<and>
   course_id \<lparr>course_id = 5, code = ''CS101''\<rparr> \<in> set (enrolledCourses example_teacher) \<and>
   snd (assignTeacherToCourse ''t@pes.edu'' ''CS101'' example_db) = example_db \<and>
   distinct (map user_id (users example_db)) \<and>
   snd (assignTeacherToCourse ''t@pes.edu'' ''CS102'' example_db) \<noteq> example_db \<and>
   assignTeacherToCourse ''t@pes.edu'' ''CS102''
       (snd (assignTeacherToCourse ''t@pes.edu'' ''CS102'' example_db)) =
     assignTeacherToCourse ''t@pes.edu'' ''CS102'' example_db"
proof -
  have a: "find (\<lambda>u. email u = ''t@pes.edu'' \<and> role u = ''teacher'') (users example_db)
             = Some example_teacher"
    by (simp add: example_db_def example_teacher_def)
  have b: "find (\<lambda>c. code c = ''CS101'') (courses example_db)
             = Some \<lparr>course_id = 5, code = ''CS101''\<rparr>"
    by (simp add: example_db_def)
  have c: "course_id \<lparr>course_id = 5, code = ''CS101''\<rparr> \<in> set (enrolledCourses example_teacher)"
    by (simp add: example_teacher_def)
  have e: "distinct (map user_id (users example_db))"
    by (simp add: example_db_def example_teacher_def)
  have f: "snd (assignTeacherToCourse ''t@pes.edu'' ''CS102'' example_db) \<noteq> example_db"
    by (simp add: assignTeacherToCourse_def example_db_def example_teacher_def)
  from assignTeacherToCourse_idempotent [of "''t@pes.edu''" example_db "''CS101''"] a b c
  have g: "snd (assignTeacherToCourse ''t@pes.edu'' ''CS101'' example_db) = example_db"
    by blast
  from assignTeacherToCourse_idempotent [of "''t@pes.edu''" example_db "''CS102''"] e
  have h: "assignTeacherToCourse ''t@pes.edu'' ''CS102''
             (snd (assignTeacherToCourse ''t@pes.edu'' ''CS102'' example_db)) =
           assignTeacherToCourse ''t@pes.edu'' ''CS102'' example_db"
    by blast
  from a b c e f g h show ?thesis by blast
qed

section \<open>The loops of the assignment\<close>

lemma create_evaluations_shape:
  "\<exists>new. snd (create_evaluations eng examId nq evr as evs) = evs @ new \<and> length new \<le> length as \<and>
     (\<forall>r\<in>set new. seeded eng examId nq r \<and> evr = Some (evaluator r) \<and> Some (evaluatee r) \<in> set as) \<and>
     distinct (map pair_key new) \<and> (\<forall>r\<in>set new. pair_key r \<notin> pair_key ` set evs)"
proof (induction as arbitrary: evs)
  case Nil
  then show ?case by simp
next
  case (Cons evee rest)
  show ?case
  proof (cases evr)
    case None
    then show ?thesis by simp
  next
    case (Some e)
    note evr = Some
    show ?thesis
    proof (cases evee)
      case None
      with evr show ?thesis by simp
    next
      case (Some v)
      note evee = Some
      show ?thesis
      proof (cases "find (\<lambda>r. ev_exam r = examId \<and> evaluator r = e \<and> evaluatee r = v) evs")
        case (Some existing)
        from Cons.IH[of evs] obtain new where
          n: "snd (create_evaluations eng examId nq evr rest evs) = evs @ new" "length new \<le> length rest"
          "\<forall>r\<in>set new. seeded eng examId nq r \<and> evr = Some (evaluator r) \<and> Some (evaluatee r) \<in> set rest"
          "distinct (map pair_key new)" "\<forall>r\<in>set new. pair_key r \<notin> pair_key ` set evs"
          by blast
        have "snd (create_evaluations eng examId nq evr (evee # rest) evs) = evs @ new"
          using evr evee Some n(1) by simp
        with n show ?thesis by auto
      next
        case None
        note nf = None
        show ?thesis
        proof (cases "zero_marks eng nq")
          case (Inl err)
          with evr evee nf show ?thesis by simp
        next
          case (Inr m)
          let ?r0 = "\<lparr>ev_exam = examId, evaluator = e, evaluatee = v, marks = m, feedback = [], status = ''pending''\<rparr>"
          from Cons.IH[of "evs @ [?r0]"] obtain new where
            n: "snd (create_evaluations eng examId nq evr rest (evs @ [?r0])) = (evs @ [?r0]) @ new" "length new \<le> length rest"
            "\<forall>r\<in>set new. seeded eng examId nq r \<and> evr = Some (evaluator r) \<and> Some (evaluatee r) \<in> set rest"
            "distinct (map pair_key new)" "\<forall>r\<in>set new. pair_key r \<notin> pair_key ` set (evs @ [?r0])"
            by blast
          have 1: "snd (create_evaluations eng examId nq evr (evee # rest) evs) = evs @ (?r0 # new)"
            using evr evee nf Inr n(1) by simp
          have 2: "pair_key ?r0 \<notin> pair_key ` set evs"
            using nf by (auto simp: find_None_iff pair_key_def)
          have 3: "seeded eng examId nq ?r0" using Inr by (simp add: seeded_def)
          have 4: "pair_key ?r0 \<notin> pair_key ` set new" using n(5) by auto
          have 5: "\<forall>r\<in>set new. pair_key r \<notin> pair_key ` set evs" using n(5) by auto
          have "length (?r0 # new) \<le> length (evee # rest) \<and>
            (\<forall>r\<in>set (?r0 # new). seeded eng examId nq r \<and> evr = Some (evaluator r) \<and> Some (evaluatee r) \<in> set (evee # rest)) \<and>
            distinct (map pair_key (?r0 # new)) \<and> (\<forall>r\<in>set (?r0 # new). pair_key r \<notin> pair_key ` set evs)"
            using n(2,3,4) 2 3 4 5 evr evee by auto
          with 1 show ?thesis by blast
        qed
      qed
    qed
  qed
qed

lemma assign_loop_step:
  "i < length students \<Longrightarrow>
   assign_loop eng rnd examId nq k students i evs =
     (case create_evaluations eng examId nq (students ! i) (assigned rnd k students i) evs of
        (Some err, evs') \<Rightarrow> (Some err, evs')
      | (None, evs') \<Rightarrow> assign_loop eng rnd examId nq k students (Suc i) evs')"
  by (subst assign_loop.simps) (simp add: assigned_def Let_def split: prod.splits option.splits)

lemma assign_loop_done:
  "\<not> i < length students \<Longrightarrow> assign_loop eng rnd examId nq k students i evs = (None, evs)"
  by (subst assign_loop.simps) simp

lemma assign_loop_shape:
  "\<exists>new. snd (assign_loop eng rnd examId nq k students i evs) = evs @ new \<and>
     (\<forall>r\<in>set new. seeded eng examId nq r \<and>
        (\<exists>j. i \<le> j \<and> j < length students \<and> students ! j = Some (evaluator r) \<and>
             Some (evaluatee r) \<in> set (assigned rnd k students j))) \<and>
     distinct (map pair_key new) \<and> (\<forall>r\<in>set new. pair_key r \<notin> pair_key ` set evs)"
proof (induction "length students - i" arbitrary: i evs)
  case 0
  then have "\<not> i < length students" by simp
  then show ?case by (simp add: assign_loop_done)
next
  case (Suc n)
  then have i: "i < length students" and n: "n = length students - Suc i" by simp_all
  from create_evaluations_shape[of eng examId nq "students ! i" "assigned rnd k students i" evs]
  obtain new1 where
    n1: "snd (create_evaluations eng examId nq (students ! i) (assigned rnd k students i) evs) = evs @ new1"
      "\<forall>r\<in>set new1. seeded eng examId nq r \<and> students ! i = Some (evaluator r) \<and>
          Some (evaluatee r) \<in> set (assigned rnd k students i)"
      "distinct (map pair_key new1)" "\<forall>r\<in>set new1. pair_key r \<notin> pair_key ` set evs"
    by blast
  have q1: "\<forall>r\<in>set new1. seeded eng examId nq r \<and>
        (\<exists>j. i \<le> j \<and> j < length students \<and> students ! j = Some (evaluator r) \<and>
             Some (evaluatee r) \<in> set (assigned rnd k students j))"
    using n1(2) i by blast
  show ?case
  proof (cases "fst (create_evaluations eng examId nq (students ! i) (assigned rnd k students i) evs)")
    case (Some err)
    then have "snd (assign_loop eng rnd examId nq k students i evs) = evs @ new1"
      using i n1(1) by (cases "create_evaluations eng examId nq (students ! i) (assigned rnd k students i) evs") (simp add: assign_loop_step)
    with q1 n1(3,4) show ?thesis by blast
  next
    case None
    from Suc.hyps(1)[OF n, of "evs @ new1"] obtain new2 where
      n2: "snd (assign_loop eng rnd examId nq k students (Suc i) (evs @ new1)) = (evs @ new1) @ new2"
        "\<forall>r\<in>set new2. seeded eng examId nq r \<and>
          (\<exists>j. Suc i \<le> j \<and> j < length students \<and> students ! j = Some (evaluator r) \<and>
             Some (evaluatee r) \<in> set (assigned rnd k students j))"
        "distinct (map pair_key new2)" "\<forall>r\<in>set new2. pair_key r \<notin> pair_key ` set (evs @ new1)"
      by blast
    have 1: "snd (assign_loop eng rnd examId nq k students i evs) = evs @ (new1 @ new2)"
      using i n1(1) n2(1) None by (cases "create_evaluations eng examId nq (students ! i) (assigned rnd k students i) evs") (simp add: assign_loop_step)
    have q2: "\<forall>r\<in>set new2. seeded eng examId nq r \<and>
        (\<exists>j. i \<le> j \<and> j < length students \<and> students ! j = Some (evaluator r) \<and>
             Some (evaluatee r) \<in> set (assigned rnd k students j))"
      using n2(2) by (meson Suc_leD)
    have 2: "distinct (map pair_key (new1 @ new2))"
      using n1(3) n2(3,4) by auto
    have 3: "\<forall>r\<in>set (new1 @ new2). pair_key r \<notin> pair_key ` set evs"
      using n1(4) n2(4) by auto
    from 1 2 3 q1 q2 show ?thesis by (intro exI[of _ "new1 @ new2"]) auto
  qed
qed

lemma populate_student_Some: "populate_student us s = Some x \<Longrightarrow> x = sub_student s"
  by (auto simp: populate_student_def find_Some_iff)

lemma length_students_of: "length (students_of examId d) = length (submitters examId d)"
  by (simp add: students_of_def submitters_def)

lemma students_of_nth:
  "j < length (students_of examId d) \<Longrightarrow> students_of examId d ! j = Some x \<Longrightarrow>
     submitters examId d ! j = x"
  by (auto simp: students_of_def submitters_def dest: populate_student_Some)

lemma otherStudents_member:
  "x \<in> set (otherStudents i xs) \<Longrightarrow> \<exists>m. m < length xs \<and> m \<noteq> i \<and> xs ! m = x"
  by (auto simp: otherStudents_def set_zip)

lemma otherStudents_snoc:
  "otherStudents i (xs @ [x]) = otherStudents i xs @ (if i = length xs then [] else [x])"
  by (simp add: otherStudents_def)

lemma otherStudents_take_drop: "otherStudents i xs = take i xs @ drop (Suc i) xs"
proof (induction xs rule: rev_induct)
  case Nil
  then show ?case by (simp add: otherStudents_def)
next
  case (snoc x xs)
  consider "i < length xs" | "i = length xs" | "length xs < i" by linarith
  then show ?case
  proof cases
    case 1
    then have "Suc i - length xs = 0" by simp
    with 1 snoc show ?thesis by (simp add: otherStudents_snoc)
  next
    case 2
    with snoc show ?thesis by (simp add: otherStudents_snoc)
  next
    case 3
    then have "take (i - length xs) [x] = [x]" by (cases "i - length xs") simp_all
    with 3 snoc show ?thesis by (simp add: otherStudents_snoc)
  qed
qed

lemma length_otherStudents:
  "i < length xs \<Longrightarrow> length (otherStudents i xs) = length xs - 1"
  by (simp add: otherStudents_take_drop) 

lemma is_shuffle_set: "is_shuffle rnd \<Longrightarrow> set (rnd i xs) = set xs"
  by (metis is_shuffle_def mset_eq_setD)

lemma is_shuffle_length: "is_shuffle rnd \<Longrightarrow> length (rnd i xs) = length xs"
  by (metis is_shuffle_def mset_eq_length)

lemma set_slice0: "set (slice0 xs e) \<subseteq> set xs"
  by (auto simp: slice0_def Let_def dest: in_set_takeD)

lemma length_slice0_nonneg: "0 \<le> e \<Longrightarrow> length (slice0 xs e) = min (nat e) (length xs)"
  by (auto simp: slice0_def Let_def)

lemma assigned_subset:
  "is_shuffle rnd \<Longrightarrow> set (assigned rnd k students j) \<subseteq> set (otherStudents j students)"
  using set_slice0 by (fastforce simp: assigned_def is_shuffle_set)

lemma length_assigned:
  assumes "is_shuffle rnd" "0 \<le> k" "j < length students"
  shows "length (assigned rnd k students j) = min (nat k) (length students - 1)"
proof -
  have "0 \<le> min k (int (length (otherStudents j students)))" using assms by simp
  then show ?thesis using assms
    by (simp add: assigned_def length_slice0_nonneg is_shuffle_length length_otherStudents)
qed

lemma send_solutions_shape:
  "\<exists>new. snd (send_solutions eng rnd examId t d) = d\<lparr>evaluations := evaluations d @ new\<rparr> \<and>
     (\<forall>r\<in>set new. \<exists>ex j.
        find (\<lambda>e. exam_id e = examId \<and> createdBy e = t) (exams d) = Some ex \<and>
        seeded eng examId (numQuestions ex) r \<and> j < length (students_of examId d) \<and>
        students_of examId d ! j = Some (evaluator r) \<and>
        Some (evaluatee r) \<in> set (assigned rnd (exam_k ex) (students_of examId d) j)) \<and>
     distinct (map pair_key new) \<and>
     (\<forall>r\<in>set new. pair_key r \<notin> pair_key ` set (evaluations d))"
proof (cases "find (\<lambda>e. exam_id e = examId \<and> createdBy e = t) (exams d)")
  case None
  then have "snd (send_solutions eng rnd examId t d) = d\<lparr>evaluations := evaluations d @ []\<rparr>"
    by (simp add: send_solutions_def)
  then show ?thesis by (intro exI[of _ "[]"]) simp
next
  case (Some ex)
  show ?thesis
  proof (cases "filter (\<lambda>s. sub_exam s = examId) (submissions d) = []")
    case True
    with Some have "snd (send_solutions eng rnd examId t d) = d\<lparr>evaluations := evaluations d @ []\<rparr>"
      by (simp add: send_solutions_def)
    then show ?thesis by (intro exI[of _ "[]"]) simp
  next
    case False
    let ?st = "students_of examId d"
    from assign_loop_shape[of eng rnd examId "numQuestions ex" "exam_k ex" ?st 0 "evaluations d"]
    obtain new where n:
      "snd (assign_loop eng rnd examId (numQuestions ex) (exam_k ex) ?st 0 (evaluations d)) = evaluations d @ new"
      "\<forall>r\<in>set new. seeded eng examId (numQuestions ex) r \<and>
        (\<exists>j. 0 \<le> j \<and> j < length ?st \<and> ?st ! j = Some (evaluator r) \<and>
             Some (evaluatee r) \<in> set (assigned rnd (exam_k ex) ?st j))"
      "distinct (map pair_key new)" "\<forall>r\<in>set new. pair_key r \<notin> pair_key ` set (evaluations d)"
      by blast
    have "snd (send_solutions eng rnd examId t d) = d\<lparr>evaluations := evaluations d @ new\<rparr>"
      using Some False n(1)
      by (cases "assign_loop eng rnd examId (numQuestions ex) (exam_k ex) ?st 0 (evaluations d)")
         (auto simp: send_solutions_def students_of_def Let_def split: option.splits)
    moreover have "\<forall>r\<in>set new. \<exists>ex j.
        find (\<lambda>e. exam_id e = examId \<and> createdBy e = t) (exams d) = Some ex \<and>
        seeded eng examId (numQuestions ex) r \<and> j < length ?st \<and>
        ?st ! j = Some (evaluator r) \<and>
        Some (evaluatee r) \<in> set (assigned rnd (exam_k ex) ?st j)"
      using n(2) Some by blast
    ultimately show ?thesis using n(3,4) by blast
  qed
qed

lemma zero_marks_Inr: "zero_marks eng n = Inr m \<Longrightarrow> m = replicate (nat n) 0 \<and> 0 \<le> n"
  by (auto simp: zero_marks_def split: if_splits fill_outcome.splits)

lemma seeded_fields:
  assumes "seeded eng examId nq r"
  shows "int (length (marks r)) = nq \<and> (\<forall>m \<in> set (marks r). m = 0) \<and>
           feedback r = [] \<and> status r = ''pending'' \<and> ev_exam r = examId"
proof -
  from assms have z: "zero_marks eng nq = Inr (marks r)" by (simp add: seeded_def)
  from zero_marks_Inr [OF z] have "marks r = replicate (nat nq) 0" and "0 \<le> nq"
    by simp_all
  then have "int (length (marks r)) = nq" and "\<forall>m \<in> set (marks r). m = 0"
    by simp_all
  with assms show ?thesis by (simp add: seeded_def)
qed

lemma created_append: "created d (d\<lparr>evaluations := evaluations d @ new\<rparr>) = new"
  by (simp add: created_def)

lemma evaluator_not_evaluatee:
  assumes sh: "is_shuffle rnd" and dist: "distinct (submitters examId d)"
    and j: "j < length (students_of examId d)"
    and e: "students_of examId d ! j = Some e"
    and v: "Some v \<in> set (assigned rnd k (students_of examId d) j)"
  shows "e \<noteq> v \<and> v \<in> set (submitters examId d) \<and> e \<in> set (submitters examId d)"
proof -
  let ?st = "students_of examId d"
  from v assigned_subset[OF sh] have "Some v \<in> set (otherStudents j ?st)" by blast
  from otherStudents_member [OF this]
  obtain m where m: "m < length ?st" "m \<noteq> j" "?st ! m = Some v"
    by blast
  have "submitters examId d ! j = e" using j e by (rule students_of_nth)
  moreover have "submitters examId d ! m = v" using m(1,3) by (rule students_of_nth)
  moreover have "j < length (submitters examId d)" "m < length (submitters examId d)"
    using j m(1) by (simp_all add: length_students_of)
  ultimately show ?thesis using dist m(2) by (auto simp: nth_eq_iff_index_eq)
qed

lemma send_solutions_created:
  "snd (send_solutions eng rnd examId t d) =
     d\<lparr>evaluations := evaluations d @ created d (snd (send_solutions eng rnd examId t d))\<rparr>"
proof -
  from send_solutions_shape [of eng rnd examId t d] obtain new where
    n: "snd (send_solutions eng rnd examId t d) = d\<lparr>evaluations := evaluations d @ new\<rparr>"
    by blast
  then have "created d (snd (send_solutions eng rnd examId t d)) = new"
    by (simp add: created_append)
  with n show ?thesis by simp
qed

lemma created_origin:
  assumes "r \<in> set (created d (snd (send_solutions eng rnd examId t d)))"
  shows "\<exists>ex j.
        find (\<lambda>e. exam_id e = examId \<and> createdBy e = t) (exams d) = Some ex \<and>
        seeded eng examId (numQuestions ex) r \<and> j < length (students_of examId d) \<and>
        students_of examId d ! j = Some (evaluator r) \<and>
        Some (evaluatee r) \<in> set (assigned rnd (exam_k ex) (students_of examId d) j)"
proof -
  from send_solutions_shape [of eng rnd examId t d] obtain new where
    n: "snd (send_solutions eng rnd examId t d) = d\<lparr>evaluations := evaluations d @ new\<rparr>"
      "\<forall>r\<in>set new. \<exists>ex j.
        find (\<lambda>e. exam_id e = examId \<and> createdBy e = t) (exams d) = Some ex \<and>
        seeded eng examId (numQuestions ex) r \<and> j < length (students_of examId d) \<and>
        students_of examId d ! j = Some (evaluator r) \<and>
        Some (evaluatee r) \<in> set (assigned rnd (exam_k ex) (students_of examId d) j)"
    by blast
  then have "created d (snd (send_solutions eng rnd examId t d)) = new"
    by (simp add: created_append)
  with n(2) assms show ?thesis by simp
qed

lemma created_fresh:
  "distinct (map pair_key (created d (snd (send_solutions eng rnd examId t d)))) \<and>
   (\<forall>r \<in> set (created d (snd (send_solutions eng rnd examId t d))).
      pair_key r \<notin> pair_key ` set (evaluations d))"
proof -
  from send_solutions_shape [of eng rnd examId t d] obtain new where
    n: "snd (send_solutions eng rnd examId t d) = d\<lparr>evaluations := evaluations d @ new\<rparr>"
      "distinct (map pair_key new)"
      "\<forall>r\<in>set new. pair_key r \<notin> pair_key ` set (evaluations d)"
    by blast
  then have "created d (snd (send_solutions eng rnd examId t d)) = new"
    by (simp add: created_append)
  with n(2,3) show ?thesis by simp
qed

lemma created_exam:
  "r \<in> set (created d (snd (send_solutions eng rnd examId t d))) \<Longrightarrow> ev_exam r = examId"
  using created_origin [of r d eng rnd examId t] by (auto simp: seeded_def)

section \<open>One invocation on the example store\<close>

lemmas run_defs = send_solutions_def assign_loop.simps populate_student_def otherStudents_def
  slice0_def zero_marks_def example_engine_def keep_order_def reverse_order_def created_def submitters_def
  example_db_def example_exam_def example_teacher_def fresh_db_def negative_k_db_def

lemma example_run:
  "snd (send_solutions example_engine keep_order 10 7 example_db) =
     example_db\<lparr>evaluations := evaluations example_db @
       [\<lparr>ev_exam = 10, evaluator = 2, evaluatee = 1, marks = [0, 0], feedback = [], status = ''pending''\<rparr>,
        \<lparr>ev_exam = 10, evaluator = 3, evaluatee = 1, marks = [0, 0], feedback = [], status = ''pending''\<rparr>]\<rparr>"
  by (simp add: run_defs eval_nat_numeral)

lemma example_created:
  "created example_db (snd (send_solutions example_engine keep_order 10 7 example_db)) =
       [\<lparr>ev_exam = 10, evaluator = 2, evaluatee = 1, marks = [0, 0], feedback = [], status = ''pending''\<rparr>,
        \<lparr>ev_exam = 10, evaluator = 3, evaluatee = 1, marks = [0, 0], feedback = [], status = ''pending''\<rparr>]"
  by (simp add: example_run created_append)

lemma is_shuffle_keep_order: "is_shuffle keep_order"
  by (simp add: is_shuffle_def keep_order_def)

lemma is_shuffle_reverse_order: "is_shuffle reverse_order"
  by (simp add: is_shuffle_def reverse_order_def)

lemma example_submitters: "submitters 10 example_db = [1, 2, 3]"
  by (simp add: submitters_def example_db_def)

lemma fresh_run:
  "send_solutions example_engine keep_order 10 7 fresh_db =
     (Response 200 ''Solutions sent to students for peer evaluation'',
      fresh_db\<lparr>evaluations :=
       [\<lparr>ev_exam = 10, evaluator = 1, evaluatee = 2, marks = [0, 0], feedback = [], status = ''pending''\<rparr>,
        \<lparr>ev_exam = 10, evaluator = 2, evaluatee = 1, marks = [0, 0], feedback = [], status = ''pending''\<rparr>,
        \<lparr>ev_exam = 10, evaluator = 3, evaluatee = 1, marks = [0, 0], feedback = [], status = ''pending''\<rparr>]\<rparr>)"
  by (simp add: run_defs eval_nat_numeral)

lemma fresh_rerun_evaluatees:
  "evaluatees_of 10 1
     (evaluations (send_solutions_repeatedly example_engine [keep_order, reverse_order] 10 7 fresh_db)) = [2, 3]"
  by (simp add: fresh_run) (simp add: run_defs evaluatees_of_def eval_nat_numeral)

lemma negative_k_run:
  "send_solutions example_engine keep_order 10 7 negative_k_db =
     (Response 200 ''Solutions sent to students for peer evaluation'',
      negative_k_db\<lparr>evaluations :=
       [\<lparr>ev_exam = 10, evaluator = 1, evaluatee = 2, marks = [0, 0], feedback = [], status = ''pending''\<rparr>,
        \<lparr>ev_exam = 10, evaluator = 2, evaluatee = 1, marks = [0, 0], feedback = [], status = ''pending''\<rparr>,
        \<lparr>ev_exam = 10, evaluator = 3, evaluatee = 1, marks = [0, 0], feedback = [], status = ''pending''\<rparr>]\<rparr>)"
  by (simp add: run_defs eval_nat_numeral)

text \<open>
  Where the engine cannot fill the mark vector, the first \<^verbatim>\<open>Evaluation.create\<close>
  is never reached: the handler answers 500 after the RangeError, or the process
  ends, and no record is written.
\<close>

lemma long_exam_run:
  "send_solutions example_engine keep_order 10 7 (long_exam_db 200000000) =
     (Response 500 ''Failed to send solutions for evaluation'', long_exam_db 200000000)"
  "send_solutions example_engine keep_order 10 7 (long_exam_db 4294967295) =
     (NoResponse, long_exam_db 4294967295)"
  "send_solutions example_engine keep_order 10 7 (long_exam_db 4294967296) =
     (Response 500 ''Failed to send solutions for evaluation'', long_exam_db 4294967296)"
  by (simp_all add: run_defs long_exam_db_def)

lemma fresh_evaluations: "evaluations fresh_db = []"
  by (simp add: fresh_db_def)

lemma fresh_submitters: "submitters 10 fresh_db = [1, 2, 3]"
  by (simp add: submitters_def fresh_db_def example_db_def)

lemma fresh_exam:
  "find (\<lambda>e. exam_id e = 10 \<and> createdBy e = 7) (exams fresh_db) = Some example_exam"
  by (simp add: fresh_db_def example_db_def example_exam_def)

section \<open>The records one invocation creates\<close>

text \<open>
  Claim C1. With one submission for each student, no record that
  \<^verbatim>\<open>send-solutions\<close> creates has the evaluator as its evaluatee, whatever the
  exam, the submitters, \<open>k\<close> and the outcome of the sort.
\<close>

theorem no_self_assignment:
  assumes "is_shuffle rnd" and "distinct (submitters examId d)"
  shows "\<forall>r \<in> set (created d (snd (send_solutions eng rnd examId t d))). evaluator r \<noteq> evaluatee r"
proof
  fix r
  assume "r \<in> set (created d (snd (send_solutions eng rnd examId t d)))"
  from created_origin [OF this] obtain ex :: exam and j where
    "j < length (students_of examId d)" "students_of examId d ! j = Some (evaluator r)"
    "Some (evaluatee r) \<in> set (assigned rnd (exam_k ex) (students_of examId d) j)"
    by auto
  from evaluator_not_evaluatee [OF assms this] show "evaluator r \<noteq> evaluatee r"
    by simp
qed

theorem no_self_assignment_witness:
  "is_shuffle keep_order \<and> distinct (submitters 10 example_db) \<and>
   map (\<lambda>r. (evaluator r, evaluatee r)) (created example_db (snd (send_solutions example_engine keep_order 10 7 example_db)))
     = [(2, 1), (3, 1)] \<and>
   list_all (\<lambda>r. evaluator r \<noteq> evaluatee r)
     (created example_db (snd (send_solutions example_engine keep_order 10 7 example_db)))"
proof -
  have d: "distinct (submitters 10 example_db)" by (simp add: example_submitters)
  from no_self_assignment [OF is_shuffle_keep_order d, of example_engine 7] is_shuffle_keep_order d
  show ?thesis by (simp add: list_all_iff example_created)
qed

text \<open>
  Claim C3. A pair that is already in the store for the exam is never created
  again: no record the handler creates has the exam, evaluator and evaluatee of a
  record that was there before, whatever the store was (the result of an earlier
  invocation included), and the records of one invocation are pairwise different
  in that triple.
\<close>

theorem no_existing_pair_again:
  "(\<forall>r \<in> set (created d (snd (send_solutions eng rnd examId t d))).
      \<forall>r0 \<in> set (evaluations d).
        \<not> (ev_exam r0 = ev_exam r \<and> evaluator r0 = evaluator r \<and> evaluatee r0 = evaluatee r)) \<and>
   distinct (map pair_key (created d (snd (send_solutions eng rnd examId t d))))"
proof (intro conjI ballI notI)
  fix r r0
  assume r: "r \<in> set (created d (snd (send_solutions eng rnd examId t d)))"
    and r0: "r0 \<in> set (evaluations d)"
    and eq: "ev_exam r0 = ev_exam r \<and> evaluator r0 = evaluator r \<and> evaluatee r0 = evaluatee r"
  from eq have "pair_key r = pair_key r0" by (simp add: pair_key_def)
  with r0 have "pair_key r \<in> pair_key ` set (evaluations d)" by simp
  with created_fresh [of d eng rnd examId t] r show False by blast
next
  show "distinct (map pair_key (created d (snd (send_solutions eng rnd examId t d))))"
    using created_fresh [of d eng rnd examId t] by simp
qed

theorem no_existing_pair_again_witness:
  "map pair_key (evaluations example_db) = [(10, 1, 2), (11, 2, 1)] \<and>
   map pair_key (created example_db (snd (send_solutions example_engine keep_order 10 7 example_db)))
     = [(10, 2, 1), (10, 3, 1)] \<and>
   list_all (\<lambda>r. list_all (\<lambda>r0. \<not> (ev_exam r0 = ev_exam r \<and> evaluator r0 = evaluator r \<and>
        evaluatee r0 = evaluatee r)) (evaluations example_db))
     (created example_db (snd (send_solutions example_engine keep_order 10 7 example_db))) \<and>
   distinct (map pair_key (created example_db (snd (send_solutions example_engine keep_order 10 7 example_db))))"
proof -
  have a: "map pair_key (evaluations example_db) = [(10, 1, 2), (11, 2, 1)]"
    by (simp add: example_db_def pair_key_def)
  have b: "map pair_key (created example_db (snd (send_solutions example_engine keep_order 10 7 example_db)))
     = [(10, 2, 1), (10, 3, 1)]"
    by (simp add: example_created pair_key_def)
  from no_existing_pair_again [of example_db example_engine keep_order 10 7] a b
  show ?thesis by (simp add: list_all_iff)
qed

text \<open>
  Claim C6. Every record the assignment creates has a mark vector of length
  \<open>numQuestions\<close> of the exam with every entry zero, the empty feedback and the
  status \<^verbatim>\<open>pending\<close>.
\<close>

theorem created_record_seeded:
  assumes "find (\<lambda>e. exam_id e = examId \<and> createdBy e = t) (exams d) = Some ex"
  shows "\<forall>r \<in> set (created d (snd (send_solutions eng rnd examId t d))).
           int (length (marks r)) = numQuestions ex \<and> (\<forall>m \<in> set (marks r). m = 0) \<and>
           feedback r = [] \<and> status r = ''pending'' \<and> ev_exam r = examId"
proof
  fix r
  assume "r \<in> set (created d (snd (send_solutions eng rnd examId t d)))"
  from created_origin [OF this] obtain ex' :: exam where
    "find (\<lambda>e. exam_id e = examId \<and> createdBy e = t) (exams d) = Some ex'"
    "seeded eng examId (numQuestions ex') r"
    by auto
  with assms have "seeded eng examId (numQuestions ex) r" by simp
  then show "int (length (marks r)) = numQuestions ex \<and> (\<forall>m \<in> set (marks r). m = 0) \<and>
           feedback r = [] \<and> status r = ''pending'' \<and> ev_exam r = examId"
    by (rule seeded_fields)
qed

theorem created_record_seeded_witness:
  "find (\<lambda>e. exam_id e = 10 \<and> createdBy e = 7) (exams example_db) = Some example_exam \<and>
   numQuestions example_exam = 2 \<and>
   map marks (created example_db (snd (send_solutions example_engine keep_order 10 7 example_db))) = [[0, 0], [0, 0]] \<and>
   list_all (\<lambda>r. int (length (marks r)) = numQuestions example_exam \<and> list_all (\<lambda>m. m = 0) (marks r) \<and>
        feedback r = [] \<and> status r = ''pending'' \<and> ev_exam r = 10)
     (created example_db (snd (send_solutions example_engine keep_order 10 7 example_db)))"
proof -
  have a: "find (\<lambda>e. exam_id e = 10 \<and> createdBy e = 7) (exams example_db) = Some example_exam"
    by (simp add: example_db_def example_exam_def)
  have b: "numQuestions example_exam = 2" by (simp add: example_exam_def)
  have c: "map marks (created example_db (snd (send_solutions example_engine keep_order 10 7 example_db))) = [[0, 0], [0, 0]]"
    by (simp add: example_created)
  from created_record_seeded [OF a, of example_engine keep_order] a b c
  show ?thesis by (simp add: list_all_iff)
qed

section \<open>How many records one invocation creates\<close>

lemma created_count:
  assumes sh: "is_shuffle rnd" and dist: "distinct (submitters examId d)"
    and ex: "find (\<lambda>e. exam_id e = examId \<and> createdBy e = t) (exams d) = Some ex"
    and k: "0 \<le> exam_k ex"
  shows "length (filter (\<lambda>r. evaluator r = e) (created d (snd (send_solutions eng rnd examId t d))))
           \<le> min (nat (exam_k ex)) (length (submitters examId d) - 1)"
proof -
  let ?new = "created d (snd (send_solutions eng rnd examId t d))"
  let ?F = "filter (\<lambda>r. evaluator r = e) ?new"
  let ?st = "students_of examId d"
  show ?thesis
  proof (cases "?F = []")
    case True
    then show ?thesis by simp
  next
    case False
    then obtain r0 where r0: "r0 \<in> set ?F" by (cases ?F) auto
    then have "r0 \<in> set ?new" and e0: "evaluator r0 = e" by simp_all
    from created_origin [OF this(1)] ex e0 obtain j0 where
      j0: "j0 < length ?st" "?st ! j0 = Some e" by auto
    have mem: "Some (evaluatee r) \<in> set (assigned rnd (exam_k ex) ?st j0)" if "r \<in> set ?F" for r
    proof -
      from that have "r \<in> set ?new" and er: "evaluator r = e" by simp_all
      from created_origin [OF this(1)] ex er obtain j where
        j: "j < length ?st" "?st ! j = Some e"
          "Some (evaluatee r) \<in> set (assigned rnd (exam_k ex) ?st j)" by auto
      have "submitters examId d ! j = e" using j(1,2) by (rule students_of_nth)
      moreover have "submitters examId d ! j0 = e" using j0 by (rule students_of_nth)
      ultimately have "submitters examId d ! j = submitters examId d ! j0" by simp
      moreover have "j < length (submitters examId d)" "j0 < length (submitters examId d)"
        using j(1) j0(1) by (simp_all add: length_students_of)
      ultimately have "j = j0" using dist by (simp add: nth_eq_iff_index_eq)
      with j(3) show ?thesis by simp
    qed
    have key: "pair_key r = (examId, e, evaluatee r)" if "r \<in> set ?F" for r
      using that created_exam [of r d eng rnd examId t] by (simp add: pair_key_def)
    have "distinct (map pair_key ?F)"
      using created_fresh [of d eng rnd examId t] by (simp add: distinct_map_filter)
    then have dF: "distinct ?F" and inj: "inj_on pair_key (set ?F)"
      by (simp_all add: distinct_map)
    have "inj_on (\<lambda>r. Some (evaluatee r)) (set ?F)"
    proof (rule inj_onI)
      fix r1 r2
      assume a: "r1 \<in> set ?F" "r2 \<in> set ?F" "Some (evaluatee r1) = Some (evaluatee r2)"
      then have "pair_key r1 = pair_key r2" using key [of r1] key [of r2] by simp
      with inj a(1,2) show "r1 = r2" by (simp add: inj_on_def)
    qed
    with dF have "distinct (map (\<lambda>r. Some (evaluatee r)) ?F)" by (simp add: distinct_map)
    then have "length ?F = card (set (map (\<lambda>r. Some (evaluatee r)) ?F))"
      by (metis distinct_card length_map)
    also have "\<dots> \<le> card (set (assigned rnd (exam_k ex) ?st j0))"
      using mem by (intro card_mono) auto
    also have "\<dots> \<le> length (assigned rnd (exam_k ex) ?st j0)" by (rule card_length)
    also have "\<dots> = min (nat (exam_k ex)) (length ?st - 1)"
      using sh k j0(1) by (rule length_assigned)
    finally show ?thesis by (simp add: length_students_of)
  qed
qed

text \<open>
  Claim C2. With \<open>S\<close> submitters and \<open>k \<ge> 0\<close>, one invocation creates at most
  \<open>min(k, S - 1)\<close> records for each evaluator.
\<close>

theorem at_most_k_per_invocation:
  assumes "is_shuffle rnd" and "distinct (submitters examId d)"
    and "find (\<lambda>e. exam_id e = examId \<and> createdBy e = t) (exams d) = Some ex"
    and "0 \<le> exam_k ex"
  shows "\<forall>e \<in> set (submitters examId d).
           int (length (filter (\<lambda>r. evaluator r = e)
                  (created d (snd (send_solutions eng rnd examId t d)))))
             \<le> min (exam_k ex) (int (length (submitters examId d)) - 1)"
proof
  fix e
  assume "e \<in> set (submitters examId d)"
  then have "0 < length (submitters examId d)" by (cases "submitters examId d") auto
  with created_count [OF assms, of e eng] assms(4) show
    "int (length (filter (\<lambda>r. evaluator r = e) (created d (snd (send_solutions eng rnd examId t d)))))
        \<le> min (exam_k ex) (int (length (submitters examId d)) - 1)"
    by linarith
qed

theorem at_most_k_per_invocation_witness:
  "is_shuffle keep_order \<and> distinct (submitters 10 fresh_db) \<and>
   find (\<lambda>e. exam_id e = 10 \<and> createdBy e = 7) (exams fresh_db) = Some example_exam \<and>
   0 \<le> exam_k example_exam \<and>
   map evaluator (created fresh_db (snd (send_solutions example_engine keep_order 10 7 fresh_db))) = [1, 2, 3] \<and>
   min (exam_k example_exam) (int (length (submitters 10 fresh_db)) - 1) = 1 \<and>
   list_all (\<lambda>e. int (length (filter (\<lambda>r. evaluator r = e)
                 (created fresh_db (snd (send_solutions example_engine keep_order 10 7 fresh_db)))))
               \<le> min (exam_k example_exam) (int (length (submitters 10 fresh_db)) - 1))
     (submitters 10 fresh_db)"
proof -
  have d: "distinct (submitters 10 fresh_db)" by (simp add: fresh_submitters)
  have k: "0 \<le> exam_k example_exam" by (simp add: example_exam_def)
  have c: "map evaluator (created fresh_db (snd (send_solutions example_engine keep_order 10 7 fresh_db))) = [1, 2, 3]"
    by (simp add: fresh_run created_def fresh_evaluations)
  have m: "min (exam_k example_exam) (int (length (submitters 10 fresh_db)) - 1) = 1"
    by (simp add: fresh_submitters example_exam_def)
  from at_most_k_per_invocation [OF is_shuffle_keep_order d fresh_exam k, of example_engine]
  have "list_all (\<lambda>e. int (length (filter (\<lambda>r. evaluator r = e)
                 (created fresh_db (snd (send_solutions example_engine keep_order 10 7 fresh_db)))))
               \<le> min (exam_k example_exam) (int (length (submitters 10 fresh_db)) - 1))
     (submitters 10 fresh_db)"
    by (simp add: list_all_iff)
  with is_shuffle_keep_order d fresh_exam k c m show ?thesis by blast
qed

section \<open>Runs without an exception\<close>

lemma create_evaluations_no_error:
  "as = [] \<or> (evr \<noteq> None \<and> None \<notin> set as \<and> (\<exists>m. zero_marks eng nq = Inr m)) \<Longrightarrow>
     fst (create_evaluations eng examId nq evr as evs) = None"
proof (induction as arbitrary: evs)
  case Nil
  then show ?case by simp
next
  case (Cons evee rest)
  from Cons.prems have q: "evr \<noteq> None \<and> None \<notin> set (evee # rest) \<and>
      (\<exists>m. zero_marks eng nq = Inr m)"
    by simp
  then have "evee \<noteq> None" by (metis list.set_intros(1))
  with q have p: "evr \<noteq> None" "evee \<noteq> None" "None \<notin> set rest"
    "\<exists>m. zero_marks eng nq = Inr m"
    by simp_all
  then obtain e v m where "evr = Some e" "evee = Some v" "zero_marks eng nq = Inr m"
    by (metis not_None_eq)
  with Cons.IH p(3) show ?case by (simp split: option.splits)
qed

lemma assign_loop_no_error:
  assumes "\<forall>j. i \<le> j \<and> j < length students \<longrightarrow>
             assigned rnd k students j = [] \<or>
             (students ! j \<noteq> None \<and> None \<notin> set (assigned rnd k students j) \<and>
              (\<exists>m. zero_marks eng nq = Inr m))"
  shows "fst (assign_loop eng rnd examId nq k students i evs) = None"
  using assms
proof (induction "length students - i" arbitrary: i evs)
  case 0
  then have "\<not> i < length students" by simp
  then show ?case by (simp add: assign_loop_done)
next
  case (Suc n)
  then have i: "i < length students" and n: "n = length students - Suc i" by simp_all
  from Suc.prems i have
    "fst (create_evaluations eng examId nq (students ! i) (assigned rnd k students i) evs) = None"
    by (intro create_evaluations_no_error) auto
  then obtain evs' where
    ce: "create_evaluations eng examId nq (students ! i) (assigned rnd k students i) evs = (None, evs')"
    by (cases "create_evaluations eng examId nq (students ! i) (assigned rnd k students i) evs") auto
  have "fst (assign_loop eng rnd examId nq k students (Suc i) evs') = None"
    using Suc.prems by (intro Suc.hyps(1) [OF n]) auto
  with i ce show ?case by (simp add: assign_loop_step)
qed

lemma send_solutions_ok:
  assumes ex: "find (\<lambda>e. exam_id e = examId \<and> createdBy e = t) (exams d) = Some ex"
    and sub: "submitters examId d \<noteq> []"
    and ok: "\<forall>j. j < length (students_of examId d) \<longrightarrow>
             assigned rnd (exam_k ex) (students_of examId d) j = [] \<or>
             (students_of examId d ! j \<noteq> None \<and>
              None \<notin> set (assigned rnd (exam_k ex) (students_of examId d) j) \<and>
              (\<exists>m. zero_marks eng (numQuestions ex) = Inr m))"
  shows "fst (send_solutions eng rnd examId t d) =
           Response 200 ''Solutions sent to students for peer evaluation''"
proof -
  have "fst (assign_loop eng rnd examId (numQuestions ex) (exam_k ex) (students_of examId d) 0
               (evaluations d)) = None"
    using ok by (intro assign_loop_no_error) auto
  then obtain evs' where
    "assign_loop eng rnd examId (numQuestions ex) (exam_k ex) (students_of examId d) 0
       (evaluations d) = (None, evs')"
    by (cases "assign_loop eng rnd examId (numQuestions ex) (exam_k ex) (students_of examId d) 0
                 (evaluations d)") auto
  with ex sub show ?thesis
    by (simp add: send_solutions_def students_of_def submitters_def)
qed

lemma no_others_for_single:
  assumes sh: "is_shuffle rnd" and len: "length students \<le> 1" and j: "j < length students"
  shows "assigned rnd k students j = []"
proof -
  have "set (otherStudents j students) = {}"
  proof (rule ccontr)
    assume "set (otherStudents j students) \<noteq> {}"
    then obtain x where "x \<in> set (otherStudents j students)"
      by (cases "otherStudents j students") auto
    from otherStudents_member [OF this] obtain m where "m < length students" "m \<noteq> j"
      by auto
    with len j show False by simp
  qed
  with assigned_subset [OF sh, of k students j] show ?thesis by simp
qed

lemma populate_student_resolves:
  "sub_student s \<in> user_id ` set us \<Longrightarrow> populate_student us s \<noteq> None"
  by (auto simp: populate_student_def find_None_iff)

text \<open>
  Claim C7. With no submitter or one submitter the assignment creates no record
  and leaves the store as it is; the answer is not the internal error 500, and
  with no submission for an exam of the teacher it is the message 400
  \<^verbatim>\<open>No submissions found for this exam\<close>.
\<close>

theorem at_most_one_submitter_no_pairs:
  assumes sh: "is_shuffle rnd" and len: "length (submitters examId d) \<le> 1"
  shows "created d (snd (send_solutions eng rnd examId t d)) = [] \<and>
         snd (send_solutions eng rnd examId t d) = d \<and>
         http_status (fst (send_solutions eng rnd examId t d)) \<noteq> 500 \<and>
         (submitters examId d = [] \<and>
          find (\<lambda>e. exam_id e = examId \<and> createdBy e = t) (exams d) \<noteq> None \<longrightarrow>
            fst (send_solutions eng rnd examId t d) =
              Response 400 ''No submissions found for this exam'')"
proof -
  let ?st = "students_of examId d"
  have st: "length ?st \<le> 1" using len by (simp add: length_students_of)
  have empty: "created d (snd (send_solutions eng rnd examId t d)) = []"
  proof (rule ccontr)
    assume "created d (snd (send_solutions eng rnd examId t d)) \<noteq> []"
    then obtain r where "r \<in> set (created d (snd (send_solutions eng rnd examId t d)))"
      by (cases "created d (snd (send_solutions eng rnd examId t d))") auto
    from created_origin [OF this] obtain ex :: exam and j where
      "j < length ?st" "Some (evaluatee r) \<in> set (assigned rnd (exam_k ex) ?st j)"
      by auto
    with no_others_for_single [OF sh st, of j "exam_k ex"] show False by simp
  qed
  with send_solutions_created [of eng rnd examId t d]
  have same: "snd (send_solutions eng rnd examId t d) = d" by simp
  have status: "http_status (fst (send_solutions eng rnd examId t d)) \<noteq> 500"
  proof (cases "find (\<lambda>e. exam_id e = examId \<and> createdBy e = t) (exams d)")
    case None
    then show ?thesis by (simp add: send_solutions_def)
  next
    case (Some ex)
    show ?thesis
    proof (cases "submitters examId d = []")
      case True
      with Some show ?thesis by (simp add: send_solutions_def submitters_def)
    next
      case False
      have "fst (send_solutions eng rnd examId t d) =
              Response 200 ''Solutions sent to students for peer evaluation''"
        using Some False no_others_for_single [OF sh st]
        by (intro send_solutions_ok) auto
      then show ?thesis by simp
    qed
  qed
  have "fst (send_solutions eng rnd examId t d) = Response 400 ''No submissions found for this exam''"
    if "submitters examId d = []"
      and "find (\<lambda>e. exam_id e = examId \<and> createdBy e = t) (exams d) \<noteq> None"
    using that by (auto simp: send_solutions_def submitters_def)
  with empty same status show ?thesis by blast
qed

theorem at_most_one_submitter_no_pairs_witness:
  "is_shuffle keep_order \<and>
   submitters 10 single_db = [1] \<and> length (submitters 10 single_db) \<le> 1 \<and>
   created single_db (snd (send_solutions example_engine keep_order 10 7 single_db)) = [] \<and>
   snd (send_solutions example_engine keep_order 10 7 single_db) = single_db \<and>
   fst (send_solutions example_engine keep_order 10 7 single_db) =
     Response 200 ''Solutions sent to students for peer evaluation'' \<and>
   submitters 10 no_submission_db = [] \<and> length (submitters 10 no_submission_db) \<le> 1 \<and>
   created no_submission_db (snd (send_solutions example_engine keep_order 10 7 no_submission_db)) = [] \<and>
   snd (send_solutions example_engine keep_order 10 7 no_submission_db) = no_submission_db \<and>
   fst (send_solutions example_engine keep_order 10 7 no_submission_db) =
     Response 400 ''No submissions found for this exam''"
proof -
  have s1: "submitters 10 single_db = [1]"
    by (simp add: submitters_def single_db_def example_db_def)
  have s0: "submitters 10 no_submission_db = []"
    by (simp add: submitters_def no_submission_db_def example_db_def)
  have l1: "length (submitters 10 single_db) \<le> 1" by (simp add: s1)
  have l0: "length (submitters 10 no_submission_db) \<le> 1" by (simp add: s0)
  have f1: "fst (send_solutions example_engine keep_order 10 7 single_db) =
     Response 200 ''Solutions sent to students for peer evaluation''"
    by (simp add: run_defs single_db_def)
  have f0: "find (\<lambda>e. exam_id e = 10 \<and> createdBy e = 7) (exams no_submission_db) \<noteq> None"
    by (simp add: no_submission_db_def example_db_def example_exam_def)
  note a = at_most_one_submitter_no_pairs [OF is_shuffle_keep_order l1, of example_engine 7]
  note b = at_most_one_submitter_no_pairs [OF is_shuffle_keep_order l0, of example_engine 7]
  from a b s0 f0 have
    "created single_db (snd (send_solutions example_engine keep_order 10 7 single_db)) = []"
    "snd (send_solutions example_engine keep_order 10 7 single_db) = single_db"
    "created no_submission_db (snd (send_solutions example_engine keep_order 10 7 no_submission_db)) = []"
    "snd (send_solutions example_engine keep_order 10 7 no_submission_db) = no_submission_db"
    "fst (send_solutions example_engine keep_order 10 7 no_submission_db) =
       Response 400 ''No submissions found for this exam''"
    by blast+
  with is_shuffle_keep_order s1 s0 l1 l0 f1 show ?thesis by blast
qed

text \<open>
  Claim C4 says that a negative \<open>k\<close> is rejected before the computation. The
  handler never looks at the sign of \<open>k\<close>: with \<open>k = -1\<close> and three submitters it
  answers 200 and creates three records.
\<close>

theorem negative_k_rejected_counterexample:
  "map exam_k (exams negative_k_db) = [- 1] \<and>
   fst (send_solutions example_engine keep_order 10 7 negative_k_db) =
     Response 200 ''Solutions sent to students for peer evaluation'' \<and>
   map evaluator (created negative_k_db (snd (send_solutions example_engine keep_order 10 7 negative_k_db))) =
     [1, 2, 3] \<and>
   map evaluatee (created negative_k_db (snd (send_solutions example_engine keep_order 10 7 negative_k_db))) =
     [2, 1, 1]"
  by (simp add: negative_k_run created_def)
     (simp add: negative_k_db_def fresh_db_def example_db_def example_exam_def)

text \<open>
  Claim C4, amended. A negative \<open>k\<close> is not rejected: whatever \<open>k\<close> is, negative
  included, when the exam is the teacher's, there is a submission, every
  submitting student resolves to a user, \<open>numQuestions\<close> is an array length and
  the engine can fill an array of that length, the handler runs the assignment
  and answers 200.
\<close>

theorem negative_k_not_rejected:
  assumes ex: "find (\<lambda>e. exam_id e = examId \<and> createdBy e = t) (exams d) = Some ex"
    and sub: "submitters examId d \<noteq> []"
    and res: "set (submitters examId d) \<subseteq> user_id ` set (users d)"
    and nq: "0 \<le> numQuestions ex" "numQuestions ex \<le> 4294967295"
    and fill: "eng (numQuestions ex) = Filled"
    and sh: "is_shuffle rnd"
  shows "fst (send_solutions eng rnd examId t d) =
           Response 200 ''Solutions sent to students for peer evaluation''"
proof -
  let ?st = "students_of examId d"
  have all: "None \<notin> set ?st"
  proof
    assume "None \<in> set ?st"
    then obtain s where s: "s \<in> set (submissions d)" "sub_exam s = examId"
      "populate_student (users d) s = None"
      by (auto simp: students_of_def)
    then have "sub_student s \<in> set (submitters examId d)" by (simp add: submitters_def)
    with res have "sub_student s \<in> user_id ` set (users d)" by blast
    from populate_student_resolves [OF this] s(3) show False by simp
  qed
  have z: "\<exists>m. zero_marks eng (numQuestions ex) = Inr m"
    using nq fill by (simp add: zero_marks_def)
  have "students_of examId d ! j \<noteq> None \<and>
        None \<notin> set (assigned rnd (exam_k ex) ?st j)" if j: "j < length ?st" for j
  proof
    from all j show "?st ! j \<noteq> None" by (metis nth_mem)
    show "None \<notin> set (assigned rnd (exam_k ex) ?st j)"
    proof
      assume "None \<in> set (assigned rnd (exam_k ex) ?st j)"
      with assigned_subset [OF sh] have "None \<in> set (otherStudents j ?st)" by blast
      from otherStudents_member [OF this] all show False by (metis nth_mem)
    qed
  qed
  with z ex sub show ?thesis by (intro send_solutions_ok) auto
qed

theorem negative_k_not_rejected_witness:
  "find (\<lambda>e. exam_id e = 10 \<and> createdBy e = 7) (exams negative_k_db)
     = Some (example_exam\<lparr>exam_k := - 1\<rparr>) \<and>
   exam_k (example_exam\<lparr>exam_k := - 1\<rparr>) < 0 \<and>
   submitters 10 negative_k_db \<noteq> [] \<and>
   set (submitters 10 negative_k_db) \<subseteq> user_id ` set (users negative_k_db) \<and>
   0 \<le> numQuestions (example_exam\<lparr>exam_k := - 1\<rparr>) \<and>
   numQuestions (example_exam\<lparr>exam_k := - 1\<rparr>) \<le> 4294967295 \<and>
   example_engine (numQuestions (example_exam\<lparr>exam_k := - 1\<rparr>)) = Filled \<and>
   is_shuffle reverse_order \<and>
   fst (send_solutions example_engine reverse_order 10 7 negative_k_db) =
     Response 200 ''Solutions sent to students for peer evaluation''"
proof -
  have a: "find (\<lambda>e. exam_id e = 10 \<and> createdBy e = 7) (exams negative_k_db)
     = Some (example_exam\<lparr>exam_k := - 1\<rparr>)"
    by (simp add: negative_k_db_def example_exam_def)
  have b: "submitters 10 negative_k_db \<noteq> []"
    by (simp add: submitters_def negative_k_db_def fresh_db_def example_db_def)
  have c: "set (submitters 10 negative_k_db) \<subseteq> user_id ` set (users negative_k_db)"
    by (simp add: submitters_def negative_k_db_def fresh_db_def example_db_def)
  have d: "0 \<le> numQuestions (example_exam\<lparr>exam_k := - 1\<rparr>)"
    "numQuestions (example_exam\<lparr>exam_k := - 1\<rparr>) \<le> 4294967295"
    "exam_k (example_exam\<lparr>exam_k := - 1\<rparr>) < 0"
    by (simp_all add: example_exam_def)
  have f: "example_engine (numQuestions (example_exam\<lparr>exam_k := - 1\<rparr>)) = Filled"
    by (simp add: example_exam_def example_engine_def)
  from negative_k_not_rejected [where eng = example_engine, OF a b c d(1,2) f
    is_shuffle_reverse_order] a b c d f
    is_shuffle_reverse_order
  show ?thesis by blast
qed

section \<open>Repeated invocation\<close>

lemma send_solutions_frame:
  "submissions (snd (send_solutions eng rnd examId t d)) = submissions d"
  "exams (snd (send_solutions eng rnd examId t d)) = exams d"
  "users (snd (send_solutions eng rnd examId t d)) = users d"
  "evaluations (snd (send_solutions eng rnd examId t d)) =
     evaluations d @ created d (snd (send_solutions eng rnd examId t d))"
  by (subst send_solutions_created, simp)+

lemma submitters_send_solutions:
  "submitters examId' (snd (send_solutions eng rnd examId t d)) = submitters examId' d"
  by (simp add: submitters_def send_solutions_frame)

lemma well_assigned_step:
  assumes sh: "is_shuffle rnd" and dist: "distinct (submitters examId d)"
    and wa: "well_assigned examId d"
  shows "well_assigned examId (snd (send_solutions eng rnd examId t d))"
proof -
  let ?new = "created d (snd (send_solutions eng rnd examId t d))"
  let ?old = "filter (\<lambda>r. ev_exam r = examId) (evaluations d)"
  have new_exam: "\<forall>r \<in> set ?new. ev_exam r = examId"
    using created_exam by blast
  then have "filter (\<lambda>r. ev_exam r = examId) ?new = ?new" by (simp add: filter_id_conv)
  then have split: "filter (\<lambda>r. ev_exam r = examId) (evaluations d @ ?new) = ?old @ ?new"
    by simp
  have "pair_key ` set ?old \<inter> pair_key ` set ?new = {}"
    using created_fresh [of d eng rnd examId t] by auto
  with wa created_fresh [of d eng rnd examId t]
  have 1: "distinct (map pair_key (?old @ ?new))" by (simp add: well_assigned_def)
  have 2: "evaluator r \<noteq> evaluatee r \<and> evaluatee r \<in> set (submitters examId d)"
    if "r \<in> set ?new" for r
  proof -
    from created_origin [OF that] obtain ex :: exam and j where
      "j < length (students_of examId d)" "students_of examId d ! j = Some (evaluator r)"
      "Some (evaluatee r) \<in> set (assigned rnd (exam_k ex) (students_of examId d) j)"
      by auto
    from evaluator_not_evaluatee [OF sh dist this] show ?thesis by simp
  qed
  from wa 1 2 split show ?thesis
    by (auto simp: well_assigned_def send_solutions_frame submitters_send_solutions)
qed

lemma evaluatees_bound:
  assumes wa: "well_assigned examId d" and dist: "distinct (submitters examId d)"
    and e: "e \<in> set (submitters examId d)"
  shows "length (evaluatees_of examId e (evaluations d)) \<le> length (submitters examId d) - 1"
proof -
  let ?F = "filter (\<lambda>r. ev_exam r = examId \<and> evaluator r = e) (evaluations d)"
  have "distinct (map pair_key
          (filter (\<lambda>r. evaluator r = e) (filter (\<lambda>r. ev_exam r = examId) (evaluations d))))"
    using wa by (simp add: well_assigned_def distinct_map_filter del: filter_filter)
  then have "distinct (map pair_key ?F)" by simp
  then have dF: "distinct ?F" and inj: "inj_on pair_key (set ?F)"
    by (simp_all add: distinct_map)
  have "inj_on evaluatee (set ?F)"
  proof (rule inj_onI)
    fix r1 r2
    assume a: "r1 \<in> set ?F" "r2 \<in> set ?F" "evaluatee r1 = evaluatee r2"
    then have "pair_key r1 = pair_key r2" by (simp add: pair_key_def)
    with inj a(1,2) show "r1 = r2" by (simp add: inj_on_def)
  qed
  with dF have "distinct (evaluatees_of examId e (evaluations d))"
    by (simp add: evaluatees_of_def distinct_map)
  then have "length (evaluatees_of examId e (evaluations d)) =
               card (set (evaluatees_of examId e (evaluations d)))"
    by (simp add: distinct_card)
  also have "\<dots> \<le> card (set (submitters examId d) - {e})"
    using wa by (intro card_mono) (auto simp: evaluatees_of_def well_assigned_def)
  also have "\<dots> = length (submitters examId d) - 1"
    using dist e by (simp add: distinct_card)
  finally show ?thesis .
qed

lemma step_count:
  assumes sh: "is_shuffle rnd" and dist: "distinct (submitters examId d)"
    and ex: "find (\<lambda>e. exam_id e = examId \<and> createdBy e = t) (exams d) = Some ex"
    and k: "0 \<le> exam_k ex"
  shows "length (evaluatees_of examId e (evaluations (snd (send_solutions eng rnd examId t d))))
           \<le> length (evaluatees_of examId e (evaluations d)) + nat (exam_k ex)"
proof -
  let ?new = "created d (snd (send_solutions eng rnd examId t d))"
  have "filter (\<lambda>r. ev_exam r = examId \<and> evaluator r = e) ?new =
          filter (\<lambda>r. ev_exam r = examId) (filter (\<lambda>r. evaluator r = e) ?new)"
    by (simp add: conj_commute)
  then have "length (evaluatees_of examId e ?new) \<le> length (filter (\<lambda>r. evaluator r = e) ?new)"
    by (simp add: evaluatees_of_def del: filter_filter)
  also have "\<dots> \<le> nat (exam_k ex)"
    using created_count [OF sh dist ex k, of e eng] by simp
  finally show ?thesis
    by (simp add: evaluatees_of_def send_solutions_frame)
qed

lemma repeated_invariant:
  assumes "\<forall>rnd \<in> set rnds. is_shuffle rnd" and "distinct (submitters examId d)"
    and "find (\<lambda>e. exam_id e = examId \<and> createdBy e = t) (exams d) = Some ex"
    and "0 \<le> exam_k ex" and "well_assigned examId d"
  shows "well_assigned examId (send_solutions_repeatedly eng rnds examId t d) \<and>
         submitters examId (send_solutions_repeatedly eng rnds examId t d) = submitters examId d \<and>
         length (evaluatees_of examId e (evaluations (send_solutions_repeatedly eng rnds examId t d)))
           \<le> length (evaluatees_of examId e (evaluations d)) + length rnds * nat (exam_k ex)"
  using assms
proof (induction rnds arbitrary: d)
  case Nil
  then show ?case by simp
next
  case (Cons rnd rnds)
  let ?d' = "snd (send_solutions eng rnd examId t d)"
  from Cons.prems have sh: "is_shuffle rnd" and rest: "\<forall>rnd \<in> set rnds. is_shuffle rnd"
    by simp_all
  have 1: "distinct (submitters examId ?d')"
    using Cons.prems(2) by (simp add: submitters_send_solutions)
  have 2: "find (\<lambda>e. exam_id e = examId \<and> createdBy e = t) (exams ?d') = Some ex"
    using Cons.prems(3) by (simp add: send_solutions_frame)
  have 3: "well_assigned examId ?d'"
    using sh Cons.prems(2,5) by (rule well_assigned_step)
  note IH = Cons.IH [OF rest 1 2 Cons.prems(4) 3]
  have "length (evaluatees_of examId e (evaluations ?d'))
          \<le> length (evaluatees_of examId e (evaluations d)) + nat (exam_k ex)"
    using sh Cons.prems(2,3,4) by (rule step_count)
  with IH show ?case by (simp add: submitters_send_solutions)
qed

text \<open>
  Claim C5 says that across repeated invocations an evaluator never has more
  than \<open>k\<close> evaluatees. With \<open>k = 1\<close> and three submitters, a second invocation
  whose sort comes out differently gives student 1 a second evaluatee.
\<close>

theorem total_at_most_k_counterexample:
  "exam_k example_exam = 1 \<and> exams fresh_db = [example_exam] \<and> evaluations fresh_db = [] \<and>
   evaluatees_of 10 1
     (evaluations (send_solutions_repeatedly example_engine [keep_order, reverse_order] 10 7 fresh_db)) = [2, 3] \<and>
   \<not> int (length (evaluatees_of 10 1
          (evaluations (send_solutions_repeatedly example_engine [keep_order, reverse_order] 10 7 fresh_db))))
       \<le> exam_k example_exam"
proof -
  have k: "exam_k example_exam = 1" by (simp add: example_exam_def)
  have e: "exams fresh_db = [example_exam]" by (simp add: fresh_db_def example_db_def)
  have "\<not> int (length (evaluatees_of 10 1
          (evaluations (send_solutions_repeatedly example_engine [keep_order, reverse_order] 10 7 fresh_db))))
       \<le> exam_k example_exam"
    unfolding fresh_rerun_evaluatees k by simp
  with k e fresh_evaluations fresh_rerun_evaluatees show ?thesis by blast
qed

text \<open>
  Claim C5, amended. Starting from a store without evaluations for the exam,
  and with \<open>k \<ge> 0\<close>, after \<open>n\<close> invocations for the same exam each evaluator has at
  most \<open>min(n * k, S - 1)\<close> evaluatees in total: only the pair that exists is
  skipped, the total of an evaluator is not capped at \<open>k\<close>.
\<close>

theorem repeated_invocations_total:
  assumes "\<forall>rnd \<in> set rnds. is_shuffle rnd" and "distinct (submitters examId d)"
    and "find (\<lambda>e. exam_id e = examId \<and> createdBy e = t) (exams d) = Some ex"
    and "0 \<le> exam_k ex"
    and "\<forall>r \<in> set (evaluations d). ev_exam r \<noteq> examId"
    and "e \<in> set (submitters examId d)"
  shows "int (length (evaluatees_of examId e
                 (evaluations (send_solutions_repeatedly eng rnds examId t d))))
           \<le> min (int (length rnds) * exam_k ex) (int (length (submitters examId d)) - 1)"
proof -
  let ?d' = "send_solutions_repeatedly eng rnds examId t d"
  have none: "filter (\<lambda>r. ev_exam r = examId) (evaluations d) = []"
    using assms(5) by (simp add: filter_empty_conv)
  then have wa: "well_assigned examId d" using assms(5) by (simp add: well_assigned_def)
  have "filter (\<lambda>r. ev_exam r = examId \<and> evaluator r = e) (evaluations d) = []"
    using assms(5) by (simp add: filter_empty_conv)
  then have zero: "length (evaluatees_of examId e (evaluations d)) = 0"
    by (simp add: evaluatees_of_def)
  from repeated_invariant [OF assms(1-4) wa, of eng e] zero have
    inv: "well_assigned examId ?d'" "submitters examId ?d' = submitters examId d"
      and cnt: "length (evaluatees_of examId e (evaluations ?d')) \<le> length rnds * nat (exam_k ex)"
    by simp_all
  from evaluatees_bound [OF inv(1)] assms(2,6) inv(2)
  have "length (evaluatees_of examId e (evaluations ?d')) \<le> length (submitters examId d) - 1"
    by simp
  moreover have "0 < length (submitters examId d)"
    using assms(6) by (cases "submitters examId d") auto
  moreover have "int (length rnds * nat (exam_k ex)) = int (length rnds) * exam_k ex"
    using assms(4) by simp
  ultimately show ?thesis using cnt by linarith
qed

theorem repeated_invocations_total_witness:
  "is_shuffle keep_order \<and> is_shuffle reverse_order \<and> distinct (submitters 10 fresh_db) \<and>
   find (\<lambda>e. exam_id e = 10 \<and> createdBy e = 7) (exams fresh_db) = Some example_exam \<and>
   0 \<le> exam_k example_exam \<and> evaluations fresh_db = [] \<and> 1 \<in> set (submitters 10 fresh_db) \<and>
   min (int (length [keep_order, reverse_order]) * exam_k example_exam)
       (int (length (submitters 10 fresh_db)) - 1) = 2 \<and>
   int (length (evaluatees_of 10 1
          (evaluations (send_solutions_repeatedly example_engine [keep_order, reverse_order] 10 7 fresh_db))))
     \<le> min (int (length [keep_order, reverse_order]) * exam_k example_exam)
           (int (length (submitters 10 fresh_db)) - 1)"
proof -
  have sh: "\<forall>rnd \<in> set [keep_order, reverse_order]. is_shuffle rnd"
    by (simp add: is_shuffle_keep_order is_shuffle_reverse_order)
  have d: "distinct (submitters 10 fresh_db)" by (simp add: fresh_submitters)
  have k: "0 \<le> exam_k example_exam" by (simp add: example_exam_def)
  have n: "evaluations fresh_db = []" by (rule fresh_evaluations)
  then have n': "\<forall>r \<in> set (evaluations fresh_db). ev_exam r \<noteq> 10" by simp
  have e: "1 \<in> set (submitters 10 fresh_db)" by (simp add: fresh_submitters)
  have m: "min (int (length [keep_order, reverse_order]) * exam_k example_exam)
       (int (length (submitters 10 fresh_db)) - 1) = 2"
    by (simp add: fresh_submitters example_exam_def)
  from repeated_invocations_total [OF sh d fresh_exam k n' e, of example_engine]
    is_shuffle_keep_order is_shuffle_reverse_order d fresh_exam k n e m
  show ?thesis by blast
qed

end
